theory Spec2Isabelle
  imports Complex_Main
begin

section \<open>Bot status and the trading control handlers\<close>

text \<open>
  The bot status is the React state created in \<^verbatim>\<open>App\<close> (both the Telegram web app and the
  desktop admin panel) by
  \<^verbatim>\<open>useState({ isRunning: false, isTradingEnabled: false, lastUpdate: null })\<close>.
  \<^verbatim>\<open>lastUpdate\<close> is \<^verbatim>\<open>null\<close> or the ISO string of \<^verbatim>\<open>new Date()\<close>; the clock reading is
  an argument of every handler that reads it.
\<close>

type_synonym timestamp = string

record bot_status =
  isRunning :: bool
  isTradingEnabled :: bool
  lastUpdate :: "timestamp option"

text \<open>
  The page components \<^verbatim>\<open>Trading\<close> (Telegram web app) and \<^verbatim>\<open>TradingControl\<close> (desktop
  admin panel) receive \<^verbatim>\<open>botStatus\<close> and \<^verbatim>\<open>setBotStatus\<close> as props and own the flag
  \<^verbatim>\<open>isLoading\<close>. \<^verbatim>\<open>TradingControl\<close> owns two settings objects in addition, so its state
  extends the common one.
\<close>

record trading_page =
  botStatus :: bot_status
  isLoading :: bool

text \<open>The two applications have the same handlers; they differ in the texts they show.\<close>

datatype app = TelegramWebApp | DesktopAdminPanel

text \<open>
  \<^verbatim>\<open>toast.success(msg)\<close> and \<^verbatim>\<open>toast.error(msg)\<close> of the \<^verbatim>\<open>sonner\<close> library: every
  handler returns the notifications it shows, in order, beside the new state.
\<close>

datatype toast = ToastSuccess string | ToastError string

datatype js_error = PromiseRejected | TypeError

text \<open>
  \<^verbatim>\<open>await new Promise(resolve => setTimeout(resolve, ms))\<close>: the promise of the simulated
  API call resolves after \<^verbatim>\<open>ms\<close> milliseconds and never rejects. The waiting time itself
  is not part of the model, but other writes to \<^verbatim>\<open>botStatus\<close> may land while a handler
  waits: \<^verbatim>\<open>isLoading\<close>, which disables the buttons, belongs to the page component and is
  fresh after the page is left and entered again, while \<^verbatim>\<open>botStatus\<close> belongs to \<^verbatim>\<open>App\<close>
  (whose desktop version also polls a simulated status every 30 seconds). So the page state
  \<open>p\<close> that a handler takes is the state its updater \<^verbatim>\<open>prev => ...\<close> is applied to, after
  the wait. \<^verbatim>\<open>handleStartBot\<close>, \<^verbatim>\<open>handleStopBot\<close> and \<^verbatim>\<open>handleEmergencyStop\<close> read nothing
  else.
\<close>

definition simulated_api_call :: "nat \<Rightarrow> js_error + unit" where
  "simulated_api_call ms = Inr ()"

definition initial_botStatus :: bot_status where
  "initial_botStatus = \<lparr>isRunning = False, isTradingEnabled = False, lastUpdate = None\<rparr>"

definition initial_trading_page :: trading_page where
  "initial_trading_page = \<lparr>botStatus = initial_botStatus, isLoading = False\<rparr>"

definition handleStartBot ::
  "app \<Rightarrow> timestamp \<Rightarrow> 'a trading_page_scheme \<Rightarrow> 'a trading_page_scheme \<times> toast list" where
  "handleStartBot a now p =
     (let p1 = p\<lparr>isLoading := True\<rparr>;
          (p2, shown) =
            (case simulated_api_call (case a of TelegramWebApp \<Rightarrow> 1500 | DesktopAdminPanel \<Rightarrow> 2000) of
               Inr _ \<Rightarrow>
                 (p1\<lparr>botStatus := (botStatus p1)\<lparr>isRunning := True, lastUpdate := Some now\<rparr>\<rparr>,
                  [ToastSuccess (case a of
                     TelegramWebApp \<Rightarrow> ''Trading bot started''
                   | DesktopAdminPanel \<Rightarrow> ''Trading bot started successfully'')])
             | Inl _ \<Rightarrow>
                 (p1,
                  [ToastError (case a of
                     TelegramWebApp \<Rightarrow> ''Failed to start bot''
                   | DesktopAdminPanel \<Rightarrow> ''Failed to start trading bot'')]))
      in (p2\<lparr>isLoading := False\<rparr>, shown))"

definition handleStopBot ::
  "app \<Rightarrow> timestamp \<Rightarrow> 'a trading_page_scheme \<Rightarrow> 'a trading_page_scheme \<times> toast list" where
  "handleStopBot a now p =
     (let p1 = p\<lparr>isLoading := True\<rparr>;
          (p2, shown) =
            (case simulated_api_call (case a of TelegramWebApp \<Rightarrow> 1000 | DesktopAdminPanel \<Rightarrow> 1500) of
               Inr _ \<Rightarrow>
                 (p1\<lparr>botStatus := (botStatus p1)\<lparr>isRunning := False, isTradingEnabled := False,
                                                  lastUpdate := Some now\<rparr>\<rparr>,
                  [ToastSuccess (case a of
                     TelegramWebApp \<Rightarrow> ''Trading bot stopped''
                   | DesktopAdminPanel \<Rightarrow> ''Trading bot stopped successfully'')])
             | Inl _ \<Rightarrow>
                 (p1,
                  [ToastError (case a of
                     TelegramWebApp \<Rightarrow> ''Failed to stop bot''
                   | DesktopAdminPanel \<Rightarrow> ''Failed to stop trading bot'')]))
      in (p2\<lparr>isLoading := False\<rparr>, shown))"

text \<open>
  \<^verbatim>\<open>handleToggleTrading\<close> reads two statuses. The guard and the text of the success toast
  read \<^verbatim>\<open>botStatus\<close> of the render the handler was created in: the argument \<open>rendered\<close>.
  The updater negates \<^verbatim>\<open>prev.isTradingEnabled\<close>, the status at the end of the wait: the
  status of \<open>p\<close>. When the guard fails the handler returns at once, before
  \<^verbatim>\<open>setIsLoading(true)\<close>, and \<open>p\<close> is the state at the call.
\<close>

definition handleToggleTrading ::
  "app \<Rightarrow> timestamp \<Rightarrow> bot_status \<Rightarrow> 'a trading_page_scheme
     \<Rightarrow> 'a trading_page_scheme \<times> toast list" where
  "handleToggleTrading a now rendered p =
     (if \<not> isRunning rendered then
        (p, [ToastError (case a of
               TelegramWebApp \<Rightarrow> ''Bot must be running first''
             | DesktopAdminPanel \<Rightarrow> ''Bot must be running to enable trading'')])
      else
        (let p1 = p\<lparr>isLoading := True\<rparr>;
             (p2, shown) =
               (case simulated_api_call (case a of TelegramWebApp \<Rightarrow> 800 | DesktopAdminPanel \<Rightarrow> 1000) of
                  Inr _ \<Rightarrow>
                    (p1\<lparr>botStatus := (botStatus p1)\<lparr>
                          isTradingEnabled := \<not> isTradingEnabled (botStatus p1),
                          lastUpdate := Some now\<rparr>\<rparr>,
                     [ToastSuccess (''Trading '' @
                        (if \<not> isTradingEnabled rendered then ''enabled'' else ''disabled''))])
                | Inl _ \<Rightarrow> (p1, [ToastError ''Failed to toggle trading'']))
         in (p2\<lparr>isLoading := False\<rparr>, shown)))"

definition handleEmergencyStop ::
  "app \<Rightarrow> timestamp \<Rightarrow> 'a trading_page_scheme \<Rightarrow> 'a trading_page_scheme \<times> toast list" where
  "handleEmergencyStop a now p =
     (let p1 = p\<lparr>isLoading := True\<rparr>;
          (p2, shown) =
            (case simulated_api_call 500 of
               Inr _ \<Rightarrow>
                 (p1\<lparr>botStatus := (botStatus p1)\<lparr>isRunning := False, isTradingEnabled := False,
                                                  lastUpdate := Some now\<rparr>\<rparr>,
                  [ToastError (case a of
                     TelegramWebApp \<Rightarrow> ''Emergency stop activated''
                   | DesktopAdminPanel \<Rightarrow> ''Emergency stop activated - All trading halted'')])
             | Inl _ \<Rightarrow> (p1, [ToastError ''Failed to execute emergency stop'']))
      in (p2\<lparr>isLoading := False\<rparr>, shown))"

text \<open>Two running states used as concrete inputs below.\<close>

definition running_monitoring_page :: trading_page where
  "running_monitoring_page =
     \<lparr>botStatus = \<lparr>isRunning = True, isTradingEnabled = False,
                    lastUpdate = Some ''2025-07-01T09:00:00.000Z''\<rparr>,
      isLoading = False\<rparr>"

definition running_trading_page :: trading_page where
  "running_trading_page =
     \<lparr>botStatus = \<lparr>isRunning = True, isTradingEnabled = True,
                    lastUpdate = Some ''2025-07-01T09:05:00.000Z''\<rparr>,
      isLoading = False\<rparr>"

section \<open>Settings pages\<close>

text \<open>
  The Telegram \<^verbatim>\<open>Settings\<close> page owns \<^verbatim>\<open>notifications\<close>, \<^verbatim>\<open>riskSettings\<close> and
  \<^verbatim>\<open>telegramSettings\<close>. The desktop \<^verbatim>\<open>TradingControl\<close> page owns \<^verbatim>\<open>tradingSettings\<close>,
  which has the four fields of \<^verbatim>\<open>riskSettings\<close> and five more, and
  \<^verbatim>\<open>emergencySettings\<close>. The integer fields are JavaScript numbers that the sliders and
  \<^verbatim>\<open>parseInt\<close> keep integral (\<^verbatim>\<open>NaN\<close>, which \<^verbatim>\<open>parseInt\<close> gives on an empty field, is
  left out).
\<close>

record risk_settings =
  maxPositionSize :: int
  stopLossEnabled :: bool
  stopLossPercentage :: int
  maxDailyTrades :: int

record trading_settings = risk_settings +
  riskLevel :: string
  tradingInterval :: int
  enableSentimentStrategy :: bool
  enableArbitrageStrategy :: bool
  minConfidence :: real

record emergency_settings =
  emergencyStopEnabled :: bool
  maxDailyLoss :: int
  maxDrawdown :: int

record notification_settings =
  trades :: bool
  alerts :: bool
  dailyReport :: bool
  marketUpdates :: bool

record telegram_settings =
  hapticFeedback :: bool
  compactMode :: bool
  darkTheme :: bool

record settings_page =
  notifications :: notification_settings
  riskSettings :: risk_settings
  telegramSettings :: telegram_settings

record trading_control = trading_page +
  tradingSettings :: trading_settings
  emergencySettings :: emergency_settings

definition initial_settings_page :: settings_page where
  "initial_settings_page =
     \<lparr>notifications =
        \<lparr>trades = True, alerts = True, dailyReport = False, marketUpdates = True\<rparr>,
      riskSettings =
        \<lparr>maxPositionSize = 10, stopLossEnabled = True, stopLossPercentage = 15,
         maxDailyTrades = 50\<rparr>,
      telegramSettings = \<lparr>hapticFeedback = True, compactMode = False, darkTheme = True\<rparr>\<rparr>"

definition initial_trading_control :: trading_control where
  "initial_trading_control =
     \<lparr>botStatus = initial_botStatus, isLoading = False,
      tradingSettings =
        \<lparr>maxPositionSize = 10, stopLossEnabled = True, stopLossPercentage = 15,
         maxDailyTrades = 50, riskLevel = ''medium'', tradingInterval = 300,
         enableSentimentStrategy = True, enableArbitrageStrategy = True,
         minConfidence = 0.7\<rparr>,
      emergencySettings =
        \<lparr>emergencyStopEnabled = False, maxDailyLoss = 500, maxDrawdown = 20\<rparr>\<rparr>"

text \<open>
  The ranges that the pages declare for the limits: the \<^verbatim>\<open>min\<close> and \<^verbatim>\<open>max\<close> attributes
  of the sliders and number inputs (the slider of \<^verbatim>\<open>minConfidence\<close> runs from 50 to 100 on
  the value times 100).
\<close>

definition riskSettings_in_range :: "'a risk_settings_scheme \<Rightarrow> bool" where
  "riskSettings_in_range r =
     (1 \<le> maxPositionSize r \<and> maxPositionSize r \<le> 25
      \<and> 5 \<le> stopLossPercentage r \<and> stopLossPercentage r \<le> 50
      \<and> 1 \<le> maxDailyTrades r \<and> maxDailyTrades r \<le> 200)"

definition tradingSettings_in_range :: "trading_settings \<Rightarrow> bool" where
  "tradingSettings_in_range t =
     (riskSettings_in_range t
      \<and> 60 \<le> tradingInterval t \<and> tradingInterval t \<le> 3600
      \<and> 50 \<le> minConfidence t * 100 \<and> minConfidence t * 100 \<le> 100)"

definition emergencySettings_in_range :: "emergency_settings \<Rightarrow> bool" where
  "emergencySettings_in_range e =
     (100 \<le> maxDailyLoss e \<and> maxDailyLoss e \<le> 5000
      \<and> 5 \<le> maxDrawdown e \<and> maxDrawdown e \<le> 50)"

text \<open>
  The \<^verbatim>\<open>onChange\<close> handlers of the "Max Daily Trades" inputs store
  \<^verbatim>\<open>parseInt(e.target.value)\<close> as it is; \<^verbatim>\<open>v\<close> is that integer. The \<^verbatim>\<open>min\<close> and \<^verbatim>\<open>max\<close>
  attributes of a number input do not stop the user from typing another number.
\<close>

definition onChange_maxDailyTrades :: "int \<Rightarrow> settings_page \<Rightarrow> settings_page" where
  "onChange_maxDailyTrades v p = p\<lparr>riskSettings := (riskSettings p)\<lparr>maxDailyTrades := v\<rparr>\<rparr>"

definition onChange_maxDailyTrades_TradingControl ::
  "int \<Rightarrow> trading_control \<Rightarrow> trading_control" where
  "onChange_maxDailyTrades_TradingControl v p =
     p\<lparr>tradingSettings := (tradingSettings p)\<lparr>maxDailyTrades := v\<rparr>\<rparr>"

text \<open>
  \<^verbatim>\<open>handleSaveSettings\<close> of the Telegram \<^verbatim>\<open>Settings\<close> page is the single statement
  \<^verbatim>\<open>toast.success('Settings saved successfully')\<close>.
\<close>

definition handleSaveSettings :: "settings_page \<Rightarrow> settings_page \<times> toast list" where
  "handleSaveSettings p = (p, [ToastSuccess ''Settings saved successfully''])"

text \<open>
  \<^verbatim>\<open>handleSaveSettings\<close> of the desktop \<^verbatim>\<open>TradingControl\<close> page awaits the simulated API
  call between \<^verbatim>\<open>setIsLoading(true)\<close> and \<^verbatim>\<open>setIsLoading(false)\<close>; it reads neither
  settings object.
\<close>

definition handleSaveSettings_TradingControl ::
  "trading_control \<Rightarrow> trading_control \<times> toast list" where
  "handleSaveSettings_TradingControl p =
     (let p1 = p\<lparr>isLoading := True\<rparr>;
          shown =
            (case simulated_api_call 1000 of
               Inr _ \<Rightarrow> [ToastSuccess ''Settings saved successfully'']
             | Inl _ \<Rightarrow> [ToastError ''Failed to save settings''])
      in (p1\<lparr>isLoading := False\<rparr>, shown))"

section \<open>Strategies page\<close>

text \<open>
  A strategy object of the desktop \<^verbatim>\<open>Strategies\<close> page. The field \<^verbatim>\<open>id\<close> is named
  \<open>strategy_id\<close> here. \<^verbatim>\<open>allocation\<close> is a percentage that the slider (\<^verbatim>\<open>min\<close> 0,
  \<^verbatim>\<open>max\<close> 100, \<^verbatim>\<open>step\<close> 5) keeps integral. \<^verbatim>\<open>performance\<close> and \<^verbatim>\<open>settings\<close> are objects
  whose keys differ between the strategies: association lists from key to number.
\<close>

record strategy =
  strategy_id :: string
  name :: string
  description :: string
  enabled :: bool
  allocation :: int
  performance :: "(string \<times> real) list"
  settings :: "(string \<times> real) list"

record strategies_page =
  strategies :: "strategy list"
  selectedStrategy :: string

definition initial_strategies :: "strategy list" where
  "initial_strategies =
     [\<lparr>strategy_id = ''sentiment'',
       name = ''Advanced Sentiment Analysis'',
       description = ''Uses multiple NLP models to analyze market sentiment from news, social media, and financial reports'',
       enabled = True,
       allocation = 60,
       performance = [(''totalPnL'', 1120), (''winRate'', 81.5), (''totalTrades'', 79),
                      (''avgConfidence'', 0.79), (''sharpeRatio'', 1.42)],
       settings = [(''minConfidence'', 0.7), (''sentimentThreshold'', 0.6),
                   (''momentumWindow'', 6), (''volumeThreshold'', 1.5),
                   (''maxCorrelation'', 0.8)]\<rparr>,
      \<lparr>strategy_id = ''arbitrage'',
       name = ''Statistical Arbitrage'',
       description = ''Identifies pricing inefficiencies between correlated markets using statistical analysis'',
       enabled = True,
       allocation = 40,
       performance = [(''totalPnL'', 660), (''winRate'', 92.3), (''totalTrades'', 26),
                      (''avgCorrelation'', 0.86), (''sharpeRatio'', 2.18)],
       settings = [(''minCorrelation'', 0.7), (''zscoreThreshold'', 2.0),
                   (''lookbackDays'', 30), (''minDataPoints'', 20),
                   (''maxPositionCorrelation'', 0.8)]\<rparr>]"

definition initial_strategies_page :: strategies_page where
  "initial_strategies_page =
     \<lparr>strategies = initial_strategies, selectedStrategy = ''sentiment''\<rparr>"

text \<open>
  \<^verbatim>\<open>handleToggleStrategy\<close> queues the mapped list with \<^verbatim>\<open>setStrategies\<close>, then looks the
  strategy up in the list it was called with to build the toast. \<^verbatim>\<open>find\<close> gives
  \<^verbatim>\<open>undefined\<close> for an id that is not in the list, and reading \<^verbatim>\<open>strategy.name\<close> then
  throws a \<^verbatim>\<open>TypeError\<close>, after the update has been queued.
\<close>

definition handleToggleStrategy ::
  "string \<Rightarrow> strategies_page \<Rightarrow> strategies_page \<times> (js_error + toast list)" where
  "handleToggleStrategy strategyId p =
     (let p1 = p\<lparr>strategies :=
                  map (\<lambda>strategy.
                         if strategy_id strategy = strategyId
                         then strategy\<lparr>enabled := \<not> enabled strategy\<rparr>
                         else strategy)
                      (strategies p)\<rparr>
      in case find (\<lambda>s. strategy_id s = strategyId) (strategies p) of
           None \<Rightarrow> (p1, Inl TypeError)
         | Some strategy \<Rightarrow>
             (p1, Inr [ToastSuccess (name strategy @ '' '' @
                         (if enabled strategy then ''disabled'' else ''enabled''))]))"

text \<open>
  \<^verbatim>\<open>handleAllocationChange\<close> computes \<^verbatim>\<open>otherStrategy\<close> and does not use it. Every
  strategy whose id differs from \<^verbatim>\<open>strategyId\<close> gets the remaining allocation.
\<close>

definition handleAllocationChange :: "string \<Rightarrow> int \<Rightarrow> strategies_page \<Rightarrow> strategies_page" where
  "handleAllocationChange strategyId newAllocation p =
     p\<lparr>strategies :=
         (let prev = strategies p;
              otherStrategy = find (\<lambda>s. strategy_id s \<noteq> strategyId) prev;
              remainingAllocation = 100 - newAllocation
          in map (\<lambda>strategy.
                    if strategy_id strategy = strategyId
                    then strategy\<lparr>allocation := newAllocation\<rparr>
                    else strategy\<lparr>allocation := remainingAllocation\<rparr>)
                 prev)\<rparr>"

section \<open>Properties of the control handlers\<close>

lemmas handler_defs =
  handleStartBot_def handleStopBot_def handleToggleTrading_def handleEmergencyStop_def
  simulated_api_call_def Let_def

text \<open>
  C1 (counterexample). The specification says that the emergency stop leads to a state of its own,
  distinct from the ordinary stopped state. In the running state with trading enabled,
  \<^verbatim>\<open>handleEmergencyStop\<close> and \<^verbatim>\<open>handleStopBot\<close> at the same clock reading leave the same
  status record: \<^verbatim>\<open>isRunning\<close> false, \<^verbatim>\<open>isTradingEnabled\<close> false.
\<close>

theorem emergency_stop_distinct_state_counterexample:
  "botStatus (fst (handleEmergencyStop DesktopAdminPanel ''2025-07-01T10:00:00.000Z''
                     running_trading_page))
     = \<lparr>isRunning = False, isTradingEnabled = False,
        lastUpdate = Some ''2025-07-01T10:00:00.000Z''\<rparr>
   \<and> botStatus (fst (handleStopBot DesktopAdminPanel ''2025-07-01T10:00:00.000Z''
                       running_trading_page))
     = botStatus (fst (handleEmergencyStop DesktopAdminPanel ''2025-07-01T10:00:00.000Z''
                         running_trading_page))
   \<and> botStatus (fst (handleStopBot TelegramWebApp ''2025-07-01T10:00:00.000Z''
                       running_trading_page))
     = botStatus (fst (handleEmergencyStop TelegramWebApp ''2025-07-01T10:00:00.000Z''
                         running_trading_page))"
  by (simp add: handler_defs running_trading_page_def)

text \<open>
  C1 (amended). From every state, stopped ones included, \<^verbatim>\<open>handleEmergencyStop\<close> completes
  (it shows the toast of the emergency stop, not the one of a failure) and leaves the bot
  in the ordinary stopped status: \<^verbatim>\<open>isRunning\<close> false, \<^verbatim>\<open>isTradingEnabled\<close> false,
  \<^verbatim>\<open>lastUpdate\<close> the clock reading. This is the status that \<^verbatim>\<open>handleStopBot\<close> leaves; the
  status record has no value for an emergency stop.
\<close>

theorem emergency_stop_reaches_stopped:
  "botStatus (fst (handleEmergencyStop a now p))
     = \<lparr>isRunning = False, isTradingEnabled = False, lastUpdate = Some now\<rparr>
   \<and> botStatus (fst (handleEmergencyStop a now p)) = botStatus (fst (handleStopBot a now p))
   \<and> \<not> isLoading (fst (handleEmergencyStop a now p))
   \<and> snd (handleEmergencyStop a now p)
     = [ToastError (case a of
          TelegramWebApp \<Rightarrow> ''Emergency stop activated''
        | DesktopAdminPanel \<Rightarrow> ''Emergency stop activated - All trading halted'')]"
  by (simp add: handler_defs)

text \<open>
  C2. When the bot is not running (the status that the guard reads has \<^verbatim>\<open>isRunning\<close>
  false), \<^verbatim>\<open>handleToggleTrading\<close> shows an error toast and changes nothing: the whole
  page state, and so \<^verbatim>\<open>isRunning\<close>, \<^verbatim>\<open>isTradingEnabled\<close> and \<^verbatim>\<open>lastUpdate\<close>, is the one it
  was called with.
\<close>

theorem toggle_trading_not_running_is_error:
  assumes "\<not> isRunning rendered"
  shows "fst (handleToggleTrading a now rendered p) = p
       \<and> isRunning (botStatus (fst (handleToggleTrading a now rendered p)))
           = isRunning (botStatus p)
       \<and> isTradingEnabled (botStatus (fst (handleToggleTrading a now rendered p)))
           = isTradingEnabled (botStatus p)
       \<and> lastUpdate (botStatus (fst (handleToggleTrading a now rendered p)))
           = lastUpdate (botStatus p)
       \<and> snd (handleToggleTrading a now rendered p)
           = [ToastError (case a of
                TelegramWebApp \<Rightarrow> ''Bot must be running first''
              | DesktopAdminPanel \<Rightarrow> ''Bot must be running to enable trading'')]"
  using assms by (simp add: handleToggleTrading_def)

theorem toggle_trading_not_running_is_error_witness:
  "\<not> isRunning (botStatus initial_trading_page)
   \<and> fst (handleToggleTrading TelegramWebApp ''2025-07-01T10:00:00.000Z''
            (botStatus initial_trading_page) initial_trading_page)
       = initial_trading_page
   \<and> snd (handleToggleTrading TelegramWebApp ''2025-07-01T10:00:00.000Z''
            (botStatus initial_trading_page) initial_trading_page)
       = [ToastError ''Bot must be running first'']"
proof -
  have stopped: "\<not> isRunning (botStatus initial_trading_page)"
    by (simp add: initial_trading_page_def initial_botStatus_def)
  from toggle_trading_not_running_is_error
         [OF stopped, where a = TelegramWebApp and now = "''2025-07-01T10:00:00.000Z''"
            and p = initial_trading_page]
  show ?thesis using stopped by simp
qed

text \<open>
  C3 (counterexample). The specification says that the start operation fails when the bot is
  already running. In the running state with trading disabled, \<^verbatim>\<open>handleStartBot\<close> shows
  the success toast and writes the status again, with a new \<^verbatim>\<open>lastUpdate\<close>.
\<close>

theorem start_fails_when_running_counterexample:
  "isRunning (botStatus running_monitoring_page)
   \<and> handleStartBot TelegramWebApp ''2025-07-01T10:00:00.000Z'' running_monitoring_page
       = (\<lparr>botStatus = \<lparr>isRunning = True, isTradingEnabled = False,
                        lastUpdate = Some ''2025-07-01T10:00:00.000Z''\<rparr>,
          isLoading = False\<rparr>,
          [ToastSuccess ''Trading bot started''])
   \<and> handleStartBot DesktopAdminPanel ''2025-07-01T10:00:00.000Z'' running_monitoring_page
       = (\<lparr>botStatus = \<lparr>isRunning = True, isTradingEnabled = False,
                        lastUpdate = Some ''2025-07-01T10:00:00.000Z''\<rparr>,
          isLoading = False\<rparr>,
          [ToastSuccess ''Trading bot started successfully''])"
  by (simp add: handler_defs running_monitoring_page_def)

text \<open>
  C3 (amended). Applied in the stopped state \<open>p\<close> (not running, trading disabled),
  \<^verbatim>\<open>handleStartBot\<close> leads to the running state with trading disabled and reports success.
  Applied in a state \<open>q\<close> where the bot is already running, it does not fail: it reports
  success as well, the bot stays running in the trading mode it had, and \<^verbatim>\<open>lastUpdate\<close>
  becomes the clock reading.
\<close>

theorem start_from_stopped_and_from_running:
  assumes "\<not> isRunning (botStatus p)" and "\<not> isTradingEnabled (botStatus p)"
    and "isRunning (botStatus q)"
  shows "isRunning (botStatus (fst (handleStartBot a now p)))
       \<and> \<not> isTradingEnabled (botStatus (fst (handleStartBot a now p)))
       \<and> botStatus (fst (handleStartBot a now q)) = (botStatus q)\<lparr>lastUpdate := Some now\<rparr>
       \<and> snd (handleStartBot a now p) = snd (handleStartBot a now q)
       \<and> snd (handleStartBot a now q)
           = [ToastSuccess (case a of
                TelegramWebApp \<Rightarrow> ''Trading bot started''
              | DesktopAdminPanel \<Rightarrow> ''Trading bot started successfully'')]"
  using assms by (simp add: handler_defs)

theorem start_from_stopped_and_from_running_witness:
  "\<not> isRunning (botStatus initial_trading_page)
   \<and> \<not> isTradingEnabled (botStatus initial_trading_page)
   \<and> isRunning (botStatus running_trading_page)
   \<and> isRunning (botStatus (fst (handleStartBot DesktopAdminPanel ''2025-07-01T10:00:00.000Z''
                                   initial_trading_page)))
   \<and> \<not> isTradingEnabled (botStatus (fst (handleStartBot DesktopAdminPanel
                                   ''2025-07-01T10:00:00.000Z'' initial_trading_page)))
   \<and> botStatus (fst (handleStartBot DesktopAdminPanel ''2025-07-01T10:00:00.000Z''
                       running_trading_page))
       = \<lparr>isRunning = True, isTradingEnabled = True,
          lastUpdate = Some ''2025-07-01T10:00:00.000Z''\<rparr>
   \<and> snd (handleStartBot DesktopAdminPanel ''2025-07-01T10:00:00.000Z'' running_trading_page)
       = [ToastSuccess ''Trading bot started successfully'']"
proof -
  have h1: "\<not> isRunning (botStatus initial_trading_page)"
    and h2: "\<not> isTradingEnabled (botStatus initial_trading_page)"
    by (simp_all add: initial_trading_page_def initial_botStatus_def)
  have h3: "isRunning (botStatus running_trading_page)"
    by (simp add: running_trading_page_def)
  have q: "(botStatus running_trading_page)\<lparr>lastUpdate := Some ''2025-07-01T10:00:00.000Z''\<rparr>
             = \<lparr>isRunning = True, isTradingEnabled = True,
                lastUpdate = Some ''2025-07-01T10:00:00.000Z''\<rparr>"
    by (simp add: running_trading_page_def)
  from start_from_stopped_and_from_running
         [OF h1 h2 h3, of DesktopAdminPanel "''2025-07-01T10:00:00.000Z''"]
  show ?thesis using h1 h2 h3 q by simp
qed

text \<open>
  C4. From every running state, with trading enabled or not, \<^verbatim>\<open>handleStopBot\<close> leaves the
  bot stopped: \<^verbatim>\<open>isRunning\<close> and \<^verbatim>\<open>isTradingEnabled\<close> are both false afterwards. The
  handler reports success.
\<close>

theorem stop_reaches_stopped:
  assumes "isRunning (botStatus p)"
  shows "\<not> isRunning (botStatus (fst (handleStopBot a now p)))
       \<and> \<not> isTradingEnabled (botStatus (fst (handleStopBot a now p)))"
  by (simp add: handler_defs)

theorem stop_reaches_stopped_witness:
  "isRunning (botStatus running_monitoring_page)
   \<and> \<not> isRunning (botStatus (fst (handleStopBot TelegramWebApp ''2025-07-01T10:00:00.000Z''
                                     running_monitoring_page)))
   \<and> \<not> isTradingEnabled (botStatus (fst (handleStopBot TelegramWebApp
                                     ''2025-07-01T10:00:00.000Z'' running_monitoring_page)))
   \<and> isRunning (botStatus running_trading_page)
   \<and> \<not> isRunning (botStatus (fst (handleStopBot DesktopAdminPanel ''2025-07-01T10:00:00.000Z''
                                     running_trading_page)))
   \<and> \<not> isTradingEnabled (botStatus (fst (handleStopBot DesktopAdminPanel
                                     ''2025-07-01T10:00:00.000Z'' running_trading_page)))"
proof -
  have m: "isRunning (botStatus running_monitoring_page)"
    by (simp add: running_monitoring_page_def)
  have t: "isRunning (botStatus running_trading_page)"
    by (simp add: running_trading_page_def)
  from stop_reaches_stopped [OF m, of TelegramWebApp "''2025-07-01T10:00:00.000Z''"]
       stop_reaches_stopped [OF t, of DesktopAdminPanel "''2025-07-01T10:00:00.000Z''"]
  show ?thesis using m t by simp
qed

text \<open>
  C5. While the bot is running (the guard reads a running status and the status that the
  updater is applied to is running), \<^verbatim>\<open>handleToggleTrading\<close> negates
  \<^verbatim>\<open>isTradingEnabled\<close> of the status it is applied to and keeps \<^verbatim>\<open>isRunning\<close> true:
  monitoring becomes trading, trading becomes monitoring. A second toggle, applied to the
  result of the first, brings the trading mode back. Whatever status the updater meets,
  it negates that status's \<^verbatim>\<open>isTradingEnabled\<close> and leaves its \<^verbatim>\<open>isRunning\<close>.
\<close>

theorem toggle_trading_flips_mode:
  assumes "isRunning rendered" and "isRunning (botStatus p)" and "isRunning rendered'"
  shows "isRunning (botStatus (fst (handleToggleTrading a now rendered p)))
       \<and> isTradingEnabled (botStatus (fst (handleToggleTrading a now rendered p)))
           = (\<not> isTradingEnabled (botStatus p))
       \<and> isRunning (botStatus (fst (handleToggleTrading a now' rendered'
                                      (fst (handleToggleTrading a now rendered p)))))
       \<and> isTradingEnabled (botStatus (fst (handleToggleTrading a now' rendered'
                                             (fst (handleToggleTrading a now rendered p)))))
           = isTradingEnabled (botStatus p)
       \<and> isRunning (botStatus (fst (handleToggleTrading a now rendered q)))
           = isRunning (botStatus q)
       \<and> isTradingEnabled (botStatus (fst (handleToggleTrading a now rendered q)))
           = (\<not> isTradingEnabled (botStatus q))"
  using assms by (simp add: handler_defs)

theorem toggle_trading_flips_mode_witness:
  "isRunning (botStatus running_monitoring_page)
   \<and> isRunning (botStatus running_trading_page)
   \<and> \<not> isTradingEnabled (botStatus running_monitoring_page)
   \<and> isRunning (botStatus (fst (handleToggleTrading TelegramWebApp ''2025-07-01T10:00:00.000Z''
                                   (botStatus running_monitoring_page) running_monitoring_page)))
   \<and> isTradingEnabled (botStatus (fst (handleToggleTrading TelegramWebApp
            ''2025-07-01T10:00:00.000Z''
            (botStatus running_monitoring_page) running_monitoring_page)))
   \<and> \<not> isTradingEnabled (botStatus (fst (handleToggleTrading TelegramWebApp
            ''2025-07-01T10:00:01.000Z'' (botStatus running_trading_page)
            (fst (handleToggleTrading TelegramWebApp ''2025-07-01T10:00:00.000Z''
                    (botStatus running_monitoring_page) running_monitoring_page)))))"
proof -
  have r: "isRunning (botStatus running_monitoring_page)"
    and m: "\<not> isTradingEnabled (botStatus running_monitoring_page)"
    by (simp_all add: running_monitoring_page_def)
  have r': "isRunning (botStatus running_trading_page)"
    by (simp add: running_trading_page_def)
  from toggle_trading_flips_mode
         [OF r r r', where a = TelegramWebApp and now = "''2025-07-01T10:00:00.000Z''"
            and now' = "''2025-07-01T10:00:01.000Z''" and q = running_monitoring_page]
  show ?thesis using r r' m by simp
qed

text \<open>
  C6 (counterexample). The specification says that a save with out-of-range limits is rejected
  with an error. Typing 500 into the "Max Daily Trades" input (declared range 1 to 200)
  gives settings outside the declared ranges; on both pages \<^verbatim>\<open>handleSaveSettings\<close> then
  shows the success toast and keeps the value 500.
\<close>

theorem save_rejects_out_of_range_counterexample:
  "\<not> tradingSettings_in_range
        (tradingSettings (onChange_maxDailyTrades_TradingControl 500 initial_trading_control))
   \<and> snd (handleSaveSettings_TradingControl
             (onChange_maxDailyTrades_TradingControl 500 initial_trading_control))
       = [ToastSuccess ''Settings saved successfully'']
   \<and> maxDailyTrades (tradingSettings (fst (handleSaveSettings_TradingControl
             (onChange_maxDailyTrades_TradingControl 500 initial_trading_control)))) = 500
   \<and> \<not> riskSettings_in_range (riskSettings (onChange_maxDailyTrades 500 initial_settings_page))
   \<and> snd (handleSaveSettings (onChange_maxDailyTrades 500 initial_settings_page))
       = [ToastSuccess ''Settings saved successfully'']
   \<and> maxDailyTrades (riskSettings (fst (handleSaveSettings
             (onChange_maxDailyTrades 500 initial_settings_page)))) = 500"
  by (simp add: tradingSettings_in_range_def riskSettings_in_range_def
        onChange_maxDailyTrades_TradingControl_def onChange_maxDailyTrades_def
        initial_trading_control_def initial_settings_page_def
        handleSaveSettings_TradingControl_def handleSaveSettings_def
        simulated_api_call_def Let_def)

text \<open>
  C6 (amended). The save operation checks nothing: for every configuration, in range or
  not, \<^verbatim>\<open>handleSaveSettings\<close> reports success and leaves every setting as it was (on the
  desktop page only \<^verbatim>\<open>isLoading\<close> is written, to false). No value is clamped.
\<close>

theorem save_settings_accepts_everything:
  "handleSaveSettings_TradingControl p
     = (p\<lparr>isLoading := False\<rparr>, [ToastSuccess ''Settings saved successfully''])
   \<and> tradingSettings (fst (handleSaveSettings_TradingControl p)) = tradingSettings p
   \<and> emergencySettings (fst (handleSaveSettings_TradingControl p)) = emergencySettings p
   \<and> handleSaveSettings q = (q, [ToastSuccess ''Settings saved successfully''])"
  by (simp add: handleSaveSettings_TradingControl_def handleSaveSettings_def
        simulated_api_call_def Let_def)

text \<open>
  Each of the four handlers keeps the implication from \<^verbatim>\<open>isTradingEnabled\<close> to
  \<^verbatim>\<open>isRunning\<close>, provided that the status the toggle's guard has read is still running
  when its updater is applied.
\<close>

lemma handlers_keep_invariant_on_current_guard:
  assumes "isTradingEnabled (botStatus p) \<longrightarrow> isRunning (botStatus p)"
    and "isRunning rendered \<longrightarrow> isRunning (botStatus p)"
  shows "isTradingEnabled (botStatus (fst (handleStartBot a now p)))
           \<longrightarrow> isRunning (botStatus (fst (handleStartBot a now p)))"
    and "isTradingEnabled (botStatus (fst (handleStopBot a now p)))
           \<longrightarrow> isRunning (botStatus (fst (handleStopBot a now p)))"
    and "isTradingEnabled (botStatus (fst (handleToggleTrading a now rendered p)))
           \<longrightarrow> isRunning (botStatus (fst (handleToggleTrading a now rendered p)))"
    and "isTradingEnabled (botStatus (fst (handleEmergencyStop a now p)))
           \<longrightarrow> isRunning (botStatus (fst (handleEmergencyStop a now p)))"
  using assms by (auto simp add: handler_defs)

text \<open>
  C8 (failing run). The invariant says that trading is never enabled while the bot is
  stopped, after any sequence of the four controls from the initial status. In the
  Telegram web app: start the bot from the initial state; press Stop (its update lands
  1000 ms later); leave the trading page and enter it again, which gives a fresh
  \<^verbatim>\<open>isLoading\<close>; press the trading switch 500 ms after Stop, while the render still shows
  the running status (its update lands 800 ms later, after the one of Stop). The guard of
  \<^verbatim>\<open>handleToggleTrading\<close> has read the running status, its updater negates the flag of the
  stopped status: the bot is left stopped with trading enabled, and the handler
  reports success. The same overlap on the desktop page, from a running state, ends the
  same way.
\<close>

theorem toggle_after_overlapping_stop_enables_trading_when_stopped:
  "botStatus (fst (handleStartBot TelegramWebApp ''2025-07-01T10:00:00.000Z''
                     initial_trading_page))
     = \<lparr>isRunning = True, isTradingEnabled = False,
        lastUpdate = Some ''2025-07-01T10:00:00.000Z''\<rparr>
   \<and> handleToggleTrading TelegramWebApp ''2025-07-01T10:00:06.300Z''
        (botStatus (fst (handleStartBot TelegramWebApp ''2025-07-01T10:00:00.000Z''
                           initial_trading_page)))
        (fst (handleStopBot TelegramWebApp ''2025-07-01T10:00:06.000Z''
                (fst (handleStartBot TelegramWebApp ''2025-07-01T10:00:00.000Z''
                        initial_trading_page))))
     = (\<lparr>botStatus = \<lparr>isRunning = False, isTradingEnabled = True,
                      lastUpdate = Some ''2025-07-01T10:00:06.300Z''\<rparr>,
         isLoading = False\<rparr>,
        [ToastSuccess ''Trading enabled''])
   \<and> botStatus (fst (handleToggleTrading DesktopAdminPanel ''2025-07-01T10:00:07.000Z''
        (botStatus running_monitoring_page)
        (fst (handleStopBot DesktopAdminPanel ''2025-07-01T10:00:06.500Z''
                running_monitoring_page))))
     = \<lparr>isRunning = False, isTradingEnabled = True,
        lastUpdate = Some ''2025-07-01T10:00:07.000Z''\<rparr>"
  by (simp add: handler_defs initial_trading_page_def initial_botStatus_def
        running_monitoring_page_def)

text \<open>
  C9. On a list of two strategies with different ids, \<^verbatim>\<open>handleAllocationChange\<close> called
  with the id of one of them (the page calls it with \<^verbatim>\<open>strategy.id\<close> of a listed strategy)
  and any new allocation leaves allocations that sum to exactly 100: the targeted strategy
  has the new allocation, the other one 100 minus it.
\<close>

theorem allocation_change_sums_to_100:
  assumes "length (strategies p) = 2"
    and "distinct (map strategy_id (strategies p))"
    and "strategyId \<in> strategy_id ` set (strategies p)"
  shows "sum_list (map allocation
                     (strategies (handleAllocationChange strategyId newAllocation p))) = 100
       \<and> (\<forall>s \<in> set (strategies (handleAllocationChange strategyId newAllocation p)).
             allocation s = (if strategy_id s = strategyId then newAllocation
                             else 100 - newAllocation))"
proof -
  from assms(1) obtain s1 s2 where two: "strategies p = [s1, s2]"
    by (cases "strategies p"; cases "tl (strategies p)") auto
  from assms(2) two have ne: "strategy_id s1 \<noteq> strategy_id s2" by simp
  from assms(3) two have "strategyId = strategy_id s1 \<or> strategyId = strategy_id s2" by auto
  then show ?thesis
  proof
    assume "strategyId = strategy_id s1"
    with two ne show ?thesis by (simp add: handleAllocationChange_def Let_def)
  next
    assume "strategyId = strategy_id s2"
    with two ne show ?thesis by (auto simp add: handleAllocationChange_def Let_def)
  qed
qed

theorem allocation_change_sums_to_100_witness:
  "length (strategies initial_strategies_page) = 2
   \<and> distinct (map strategy_id (strategies initial_strategies_page))
   \<and> ''arbitrage'' \<in> strategy_id ` set (strategies initial_strategies_page)
   \<and> sum_list (map allocation
                  (strategies (handleAllocationChange ''arbitrage'' 75 initial_strategies_page)))
       = 100
   \<and> map allocation (strategies (handleAllocationChange ''arbitrage'' 75 initial_strategies_page))
       = [25, 75]"
proof -
  have l: "length (strategies initial_strategies_page) = 2"
    and d: "distinct (map strategy_id (strategies initial_strategies_page))"
    and m: "''arbitrage'' \<in> strategy_id ` set (strategies initial_strategies_page)"
    by (simp_all add: initial_strategies_page_def initial_strategies_def)
  have v: "map allocation (strategies (handleAllocationChange ''arbitrage'' 75
                                         initial_strategies_page)) = [25, 75]"
    by (simp add: handleAllocationChange_def Let_def initial_strategies_page_def
          initial_strategies_def)
  from allocation_change_sums_to_100 [OF l d m, of 75]
  show ?thesis using l d m v by blast
qed

text \<open>
  C10. For a strategy id of the list, \<^verbatim>\<open>handleToggleStrategy\<close> completes with its toast
  and negates the \<^verbatim>\<open>enabled\<close> flag of the strategy with that id, nothing else: the list
  keeps its length and order, the toggled strategy keeps its id, name, description,
  allocation, performance and settings, every strategy with another id is the same object
  as before, and the selected strategy of the page is untouched.
\<close>

theorem toggle_strategy_frame:
  assumes "strategyId \<in> strategy_id ` set (strategies p)"
  shows "(\<exists>shown. snd (handleToggleStrategy strategyId p) = Inr shown)
       \<and> selectedStrategy (fst (handleToggleStrategy strategyId p)) = selectedStrategy p
       \<and> length (strategies (fst (handleToggleStrategy strategyId p))) = length (strategies p)
       \<and> (\<forall>i < length (strategies p).
            (strategy_id (strategies p ! i) = strategyId \<longrightarrow>
               strategies (fst (handleToggleStrategy strategyId p)) ! i
                 = (strategies p ! i)\<lparr>enabled := \<not> enabled (strategies p ! i)\<rparr>
               \<and> enabled (strategies (fst (handleToggleStrategy strategyId p)) ! i)
                   = (\<not> enabled (strategies p ! i)))
          \<and> (strategy_id (strategies p ! i) \<noteq> strategyId \<longrightarrow>
               strategies (fst (handleToggleStrategy strategyId p)) ! i = strategies p ! i)
          \<and> strategy_id (strategies (fst (handleToggleStrategy strategyId p)) ! i)
              = strategy_id (strategies p ! i)
          \<and> name (strategies (fst (handleToggleStrategy strategyId p)) ! i)
              = name (strategies p ! i)
          \<and> description (strategies (fst (handleToggleStrategy strategyId p)) ! i)
              = description (strategies p ! i)
          \<and> allocation (strategies (fst (handleToggleStrategy strategyId p)) ! i)
              = allocation (strategies p ! i)
          \<and> performance (strategies (fst (handleToggleStrategy strategyId p)) ! i)
              = performance (strategies p ! i)
          \<and> settings (strategies (fst (handleToggleStrategy strategyId p)) ! i)
              = settings (strategies p ! i))"
proof -
  from assms obtain s where "find (\<lambda>s. strategy_id s = strategyId) (strategies p) = Some s"
    by (cases "find (\<lambda>s. strategy_id s = strategyId) (strategies p)")
       (auto simp add: find_None_iff)
  then have found: "handleToggleStrategy strategyId p =
      (p\<lparr>strategies := map (\<lambda>strategy. if strategy_id strategy = strategyId
                                        then strategy\<lparr>enabled := \<not> enabled strategy\<rparr>
                                        else strategy) (strategies p)\<rparr>,
       Inr [ToastSuccess (name s @ '' '' @ (if enabled s then ''disabled'' else ''enabled''))])"
    by (simp add: handleToggleStrategy_def Let_def)
  show ?thesis unfolding found by simp
qed

theorem toggle_strategy_frame_witness:
  "''arbitrage'' \<in> strategy_id ` set (strategies initial_strategies_page)
   \<and> snd (handleToggleStrategy ''arbitrage'' initial_strategies_page)
       = Inr [ToastSuccess ''Statistical Arbitrage disabled'']
   \<and> strategies (fst (handleToggleStrategy ''arbitrage'' initial_strategies_page)) ! 0
       = initial_strategies ! 0
   \<and> strategies (fst (handleToggleStrategy ''arbitrage'' initial_strategies_page)) ! 1
       = (initial_strategies ! 1)\<lparr>enabled := False\<rparr>"
proof -
  have m: "''arbitrage'' \<in> strategy_id ` set (strategies initial_strategies_page)"
    by (simp add: initial_strategies_page_def initial_strategies_def)
  have t: "snd (handleToggleStrategy ''arbitrage'' initial_strategies_page)
             = Inr [ToastSuccess ''Statistical Arbitrage disabled'']"
    by (simp add: handleToggleStrategy_def Let_def initial_strategies_page_def
          initial_strategies_def)
  have s: "strategies initial_strategies_page = initial_strategies"
    by (simp add: initial_strategies_page_def)
  have i0: "strategy_id (initial_strategies ! 0) \<noteq> ''arbitrage''"
    and i1: "strategy_id (initial_strategies ! 1) = ''arbitrage''"
    and e1: "enabled (initial_strategies ! 1)"
    and l: "length initial_strategies = 2"
    by (simp_all add: initial_strategies_def)
  from toggle_strategy_frame [OF m]
  have frame: "\<forall>i < length (strategies initial_strategies_page).
            (strategy_id (strategies initial_strategies_page ! i) = ''arbitrage'' \<longrightarrow>
               strategies (fst (handleToggleStrategy ''arbitrage'' initial_strategies_page)) ! i
                 = (strategies initial_strategies_page ! i)
                     \<lparr>enabled := \<not> enabled (strategies initial_strategies_page ! i)\<rparr>)
          \<and> (strategy_id (strategies initial_strategies_page ! i) \<noteq> ''arbitrage'' \<longrightarrow>
               strategies (fst (handleToggleStrategy ''arbitrage'' initial_strategies_page)) ! i
                 = strategies initial_strategies_page ! i)"
    by blast
  from frame have "strategies (fst (handleToggleStrategy ''arbitrage''
                                      initial_strategies_page)) ! 0 = initial_strategies ! 0"
    using i0 l by (simp add: s)
  moreover from frame have "strategies (fst (handleToggleStrategy ''arbitrage''
                                      initial_strategies_page)) ! 1
                              = (initial_strategies ! 1)\<lparr>enabled := False\<rparr>"
    using i1 e1 l by (simp add: s)
  ultimately show ?thesis using m t by blast
qed

end
